theory Spec2Isabelle
  imports Main
begin

section \<open>The text-adventure engine: console, data model and marker scanner\<close>

text \<open>
  A shallow embedding of \<^verbatim>\<open>src/engine.hpp\<close> (namespace \<^verbatim>\<open>textengine\<close>).
  Every member function is a HOL function on the object's fields; a function that
  mutates its object or an argument passed by reference returns the new value next to
  its outcome, so the state after a \<^verbatim>\<open>throw\<close> can be read off as well.
\<close>

subsection \<open>Outcomes of a call\<close>

text \<open>
  A call returns normally with a value, unwinds with a \<^verbatim>\<open>textengine::exception\<close>
  carrying a message, or dereferences a string iterator that does not point into
  \<^verbatim>\<open>[line.begin(), line.end())\<close>. The last is undefined behaviour in C++; the model stops
  there with \<open>OutOfRange\<close> and reports the cursor position of the read.
\<close>

datatype 'a outcome = Returned 'a | Thrown string | OutOfRange

subsection \<open>struct configure\<close>

record configure =
  output_indent :: string
  log_level :: int
  trim_whitespaces_behind_markers :: bool
  display_disabled_decisions :: bool

text \<open>The default member initialisers of \<^verbatim>\<open>configure\<close> (lines 34, 41, 49, 58).\<close>

definition configure_default :: configure where
  "configure_default =
     \<lparr>output_indent = ''  '', log_level = 1,
      trim_whitespaces_behind_markers = True, display_disabled_decisions = True\<rparr>"

subsection \<open>class console\<close>

text \<open>
  The two static members \<^verbatim>\<open>indent_\<close> and \<^verbatim>\<open>level_\<close> (the fields \<open>console_indent\<close>
  and \<open>console_level\<close>), and the characters written to \<^verbatim>\<open>std::cout\<close> so far. The
  variadic arguments of \<^verbatim>\<open>out\<close> and \<^verbatim>\<open>log\<close> are strings at every call site of the
  repository and are modelled as a first string and a list.
\<close>

record console =
  console_indent :: string
  console_level :: int
  cout :: string

text \<open>The static initialisation at the end of the header (lines 494, 495).\<close>

definition console_init :: console where
  "console_init = \<lparr>console_indent = ''  '', console_level = 1, cout = []\<rparr>"

definition indent :: "string \<Rightarrow> console \<Rightarrow> console" where
  "indent i c = c\<lparr>console_indent := i\<rparr>"

definition logLevel :: "int \<Rightarrow> console \<Rightarrow> console" where
  "logLevel l c = c\<lparr>console_level := l\<rparr>"

text \<open>
  \<^verbatim>\<open>out\<close> writes the first argument, then every further argument on a new line after
  the indentation, then \<^verbatim>\<open>std::endl\<close>.
\<close>

definition out :: "string \<Rightarrow> string list \<Rightarrow> console \<Rightarrow> console" where
  "out arg args c =
     c\<lparr>cout := cout c @ arg @ concat (map (\<lambda>a. CHR 0x0A # console_indent c @ a) args) @ [CHR 0x0A]\<rparr>"

text \<open>\<^verbatim>\<open>console::log\<close>, lines 109 to 118, branch for branch.\<close>

definition log :: "int \<Rightarrow> string \<Rightarrow> string list \<Rightarrow> console \<Rightarrow> unit outcome \<times> console" where
  "log level arg args c =
     (if level = 1 then (Thrown arg, c)
      else if level < 1 \<or> level > console_level c then (Returned (), c)
      else (Returned (), out arg args c))"

subsection \<open>class Decision\<close>

record Decision =
  Decision_id :: string
  Decision_message :: string
  Decision_link :: string
  Decision_enabled :: bool
  Decision_score :: int

text \<open>The constructor; the defaults of line 142 are \<open>''''\<close>, \<open>True\<close> and \<open>0\<close>.\<close>

definition Decision_new :: "string \<Rightarrow> string \<Rightarrow> string \<Rightarrow> bool \<Rightarrow> int \<Rightarrow> Decision" where
  "Decision_new i m l e s =
     \<lparr>Decision_id = i, Decision_message = m, Decision_link = l,
      Decision_enabled = e, Decision_score = s\<rparr>"

subsection \<open>class Dialog\<close>

text \<open>
  The private members \<^verbatim>\<open>decisions_\<close>, \<^verbatim>\<open>id_\<close>, \<^verbatim>\<open>message_\<close>, \<^verbatim>\<open>link_\<close>.
  \<^verbatim>\<open>std::map<std::string, Decision>\<close> holds at most one value per key and is a map
  from keys to values.
\<close>

record Dialog =
  Dialog_decisions :: "string \<rightharpoonup> Decision"
  Dialog_id :: string
  Dialog_message :: string
  Dialog_link :: string

definition Dialog_new :: "string \<Rightarrow> string \<Rightarrow> string \<Rightarrow> Dialog" where
  "Dialog_new i m l =
     \<lparr>Dialog_decisions = Map.empty, Dialog_id = i, Dialog_message = m, Dialog_link = l\<rparr>"

definition allDecisions :: "Dialog \<Rightarrow> (string \<rightharpoonup> Decision)" where
  "allDecisions d = Dialog_decisions d"

text \<open>
  \<^verbatim>\<open>insertDecision(const Decision &)\<close>, lines 250 to 254. \<^verbatim>\<open>std::map::insert\<close> stores
  the pair and answers \<^verbatim>\<open>second == true\<close> when the key is new; when the key is present
  it stores nothing and answers \<^verbatim>\<open>false\<close>, and then \<^verbatim>\<open>console::log(1, msg)\<close> throws
  (line 112 of \<^verbatim>\<open>log\<close>, whatever the console's level).
\<close>

definition insertDecision :: "Decision \<Rightarrow> Dialog \<Rightarrow> unit outcome \<times> Dialog" where
  "insertDecision dc d =
     (case Dialog_decisions d (Decision_id dc) of
        None \<Rightarrow> (Returned (), d\<lparr>Dialog_decisions := (Dialog_decisions d)(Decision_id dc \<mapsto> dc)\<rparr>)
      | Some _ \<Rightarrow> (Thrown (''duplicate decision id: '' @ Decision_id dc), d))"

text \<open>The overload that builds the Decision from its fields, lines 265 to 269.\<close>

definition insertDecision_fields ::
  "string \<Rightarrow> string \<Rightarrow> string \<Rightarrow> bool \<Rightarrow> int \<Rightarrow> Dialog \<Rightarrow> unit outcome \<times> Dialog" where
  "insertDecision_fields i m l e s d =
     (case Dialog_decisions d i of
        None \<Rightarrow> (Returned (), d\<lparr>Dialog_decisions := (Dialog_decisions d)(i \<mapsto> Decision_new i m l e s)\<rparr>)
      | Some _ \<Rightarrow> (Thrown (''duplicate decision id: '' @ i), d))"

text \<open>
  \<^verbatim>\<open>Decision &decision(const std::string &)\<close>, lines 275 to 281. The reference returned
  is the map's own entry, modelled by the entry stored under the key; the Dialog is
  returned as well, to show what the call leaves of it.
\<close>

definition decision :: "string \<Rightarrow> Dialog \<Rightarrow> Decision outcome \<times> Dialog" where
  "decision i d =
     (case Dialog_decisions d i of
        None \<Rightarrow> (Thrown (''cannot find decision with id: '' @ i), d)
      | Some dc \<Rightarrow> (Returned dc, d))"

subsection \<open>class Tree\<close>

record Tree =
  Tree_dialogs :: "string \<rightharpoonup> Dialog"
  Tree_root :: string
  Tree_id :: string
  Tree_score :: int

text \<open>The constructor initialises \<^verbatim>\<open>root_\<close> and \<^verbatim>\<open>score_\<close> only; \<^verbatim>\<open>id_\<close> stays empty.\<close>

definition Tree_new :: "string \<Rightarrow> int \<Rightarrow> Tree" where
  "Tree_new r s = \<lparr>Tree_dialogs = Map.empty, Tree_root = r, Tree_id = [], Tree_score = s\<rparr>"

text \<open>\<^verbatim>\<open>insertDialog(const Dialog &)\<close>, lines 310 to 314.\<close>

definition insertDialog :: "Dialog \<Rightarrow> Tree \<Rightarrow> unit outcome \<times> Tree" where
  "insertDialog d t =
     (case Tree_dialogs t (Dialog_id d) of
        None \<Rightarrow> (Returned (), t\<lparr>Tree_dialogs := (Tree_dialogs t)(Dialog_id d \<mapsto> d)\<rparr>)
      | Some _ \<Rightarrow> (Thrown (''duplicate dialog id: '' @ Dialog_id d), t))"

text \<open>The overload that builds the Dialog from its fields, lines 323 to 327.\<close>

definition insertDialog_fields ::
  "string \<Rightarrow> string \<Rightarrow> string \<Rightarrow> Tree \<Rightarrow> unit outcome \<times> Tree" where
  "insertDialog_fields i m l t =
     (case Tree_dialogs t i of
        None \<Rightarrow> (Returned (), t\<lparr>Tree_dialogs := (Tree_dialogs t)(i \<mapsto> Dialog_new i m l)\<rparr>)
      | Some _ \<Rightarrow> (Thrown (''duplicate dialog id: '' @ i), t))"

text \<open>\<^verbatim>\<open>Dialog &dialog(const std::string &)\<close>, lines 333 to 339.\<close>

definition dialog :: "string \<Rightarrow> Tree \<Rightarrow> Dialog outcome \<times> Tree" where
  "dialog i t =
     (case Tree_dialogs t i of
        None \<Rightarrow> (Thrown (''cannot find dialog with id: '' @ i), t)
      | Some d \<Rightarrow> (Returned d, t))"

text \<open>
  A member call through the reference that \<^verbatim>\<open>dialog\<close> returns, as in
  \<^verbatim>\<open>tree.dialog(k).insertDecision(dc)\<close>: the reference aliases the entry of the map, so
  what the member does to the Dialog is done to the entry stored under \<open>k\<close>. A miss
  throws before the member runs.
\<close>

definition through_dialog ::
  "string \<Rightarrow> (Dialog \<Rightarrow> 'a outcome \<times> Dialog) \<Rightarrow> Tree \<Rightarrow> 'a outcome \<times> Tree" where
  "through_dialog k f t =
     (case dialog k t of
        (Returned d, t') \<Rightarrow>
          (case f d of (r, d') \<Rightarrow> (r, t'\<lparr>Tree_dialogs := (Tree_dialogs t')(k \<mapsto> d')\<rparr>))
      | (Thrown e, t') \<Rightarrow> (Thrown e, t')
      | (OutOfRange, t') \<Rightarrow> (OutOfRange, t'))"

subsection \<open>class Parser: the Token and the marker scanner\<close>

text \<open>
  \<^verbatim>\<open>struct Token\<close> with its default member initialisers (lines 365 to 375). The fields
  \<^verbatim>\<open>text\<close>, \<^verbatim>\<open>id\<close> and \<^verbatim>\<open>link\<close> carry the prefix \<open>Token_\<close>.
\<close>

record Token =
  Token_text :: string
  Token_id :: string
  Token_link :: string
  isTreeLink :: bool
  hasId :: bool
  hasLink :: bool

definition Token_default :: Token where
  "Token_default =
     \<lparr>Token_text = [], Token_id = [], Token_link = [],
      isTreeLink = False, hasId = False, hasLink = False\<rparr>"

text \<open>
  A \<^verbatim>\<open>std::string::const_iterator\<close> into \<^verbatim>\<open>line\<close> is the index \<open>it\<close> of the character
  it points to; \<^verbatim>\<open>line.end()\<close> is \<open>length line\<close>. Reading \<^verbatim>\<open>*it\<close> is \<open>line ! it\<close> when
  \<open>it < length line\<close> and \<open>OutOfRange\<close> otherwise.

  The first loop of \<^verbatim>\<open>parseMarkerValue\<close> (line 387):
  \<^verbatim>\<open>while (++it != line.end() && *it != ']') marker.push_back(*it);\<close>
  The increment comes first, the comparison with \<^verbatim>\<open>line.end()\<close> second, the read last.
\<close>

function parseMarkerValue_scan :: "string \<Rightarrow> nat \<Rightarrow> string \<Rightarrow> string outcome \<times> nat" where
  "parseMarkerValue_scan line it marker =
     (if Suc it = length line then (Returned marker, Suc it)
      else if length line < Suc it then (OutOfRange, Suc it)
      else if line ! Suc it = CHR '']'' then (Returned marker, Suc it)
      else parseMarkerValue_scan line (Suc it) (marker @ [line ! Suc it]))"
  by pat_completeness auto
termination
  by (relation "measure (\<lambda>(line, it, marker). length line - it)") auto

declare parseMarkerValue_scan.simps [simp del]

text \<open>
  The second loop (line 392), run when the trimming option is set:
  \<^verbatim>\<open>while (++it != line.end() && *it == ' ') ;\<close>
\<close>

function parseMarkerValue_trim :: "string \<Rightarrow> nat \<Rightarrow> unit outcome \<times> nat" where
  "parseMarkerValue_trim line it =
     (if Suc it = length line then (Returned (), Suc it)
      else if length line < Suc it then (OutOfRange, Suc it)
      else if line ! Suc it = CHR '' '' then parseMarkerValue_trim line (Suc it)
      else (Returned (), Suc it))"
  by pat_completeness auto
termination
  by (relation "measure (\<lambda>(line, it). length line - it)") auto

declare parseMarkerValue_trim.simps [simp del]

text \<open>
  \<^verbatim>\<open>parseMarkerValue\<close>, lines 383 to 396: the marker and the cursor, which is passed by
  reference.
\<close>

definition parseMarkerValue :: "configure \<Rightarrow> string \<Rightarrow> nat \<Rightarrow> string outcome \<times> nat" where
  "parseMarkerValue config line it =
     (case parseMarkerValue_scan line it [] of
        (Returned marker, it1) \<Rightarrow>
          if trim_whitespaces_behind_markers config then
            (case parseMarkerValue_trim line it1 of
               (Returned _, it2) \<Rightarrow> (Returned marker, it2)
             | (Thrown e, it2) \<Rightarrow> (Thrown e, it2)
             | (OutOfRange, it2) \<Rightarrow> (OutOfRange, it2))
          else (Returned marker, it1)
      | (Thrown e, it1) \<Rightarrow> (Thrown e, it1)
      | (OutOfRange, it1) \<Rightarrow> (OutOfRange, it1))"

text \<open>
  One turn of the \<^verbatim>\<open>while\<close> loop of \<^verbatim>\<open>parseLine\<close>, lines 406 to 455, entered with
  \<^verbatim>\<open>it != line.end()\<close>: the outcome, the Token \<^verbatim>\<open>curr\<close> (passed by reference, named
  \<open>cur\<close> here) and the cursor. A turn that completes ends with the \<^verbatim>\<open>it++\<close> of line 455.

  Line 414, \<^verbatim>\<open>if ((curr.hasId = !curr.hasId))\<close>, flips the flag and tests the new value: a
  Token without an id gets the flag and the id; a Token with an id loses the flag, keeps
  its id, and \<^verbatim>\<open>console::log(1, ...)\<close> throws. Line 431 does the same with the link.
  The reads of \<^verbatim>\<open>*it\<close> after the \<^verbatim>\<open>it++\<close> of lines 409 and 425 are not guarded by a
  comparison with \<^verbatim>\<open>line.end()\<close>.
\<close>

definition parseLine_body ::
  "configure \<Rightarrow> Token \<Rightarrow> string \<Rightarrow> nat \<Rightarrow> unit outcome \<times> Token \<times> nat" where
  "parseLine_body config cur line it =
     (if length line \<le> it then (OutOfRange, cur, it)
      else if line ! it = CHR ''$'' then
        (if length line \<le> Suc it then (OutOfRange, cur, Suc it)
         else if line ! Suc it = CHR ''['' then
           (case parseMarkerValue config line (Suc it) of
              (Returned ident, it') \<Rightarrow>
                (let cur1 = cur\<lparr>hasId := \<not> hasId cur\<rparr> in
                 if hasId cur1 then (Returned (), cur1\<lparr>Token_id := ident\<rparr>, Suc it')
                 else (Thrown (''found another id within token: '' @ ident), cur1, it'))
            | (Thrown e, it') \<Rightarrow> (Thrown e, cur, it')
            | (OutOfRange, it') \<Rightarrow> (OutOfRange, cur, it'))
         else if line ! Suc it = CHR ''T'' \<or> line ! Suc it = CHR ''t'' \<or>
                 line ! Suc it = CHR ''D'' \<or> line ! Suc it = CHR ''d'' then
           (if length line \<le> Suc (Suc it) then (OutOfRange, cur, Suc (Suc it))
            else if line ! Suc (Suc it) = CHR ''['' then
              (case parseMarkerValue config line (Suc (Suc it)) of
                 (Returned lnk, it') \<Rightarrow>
                   (let cur1 = cur\<lparr>hasLink := \<not> hasLink cur\<rparr> in
                    if hasLink cur1 then
                      (Returned (),
                       cur1\<lparr>Token_link := lnk,
                            isTreeLink :=
                              (line ! Suc it = CHR ''T'' \<or> line ! Suc it = CHR ''t'')\<rparr>,
                       Suc it')
                    else (Thrown (''found another link within token: '' @ lnk), cur1, it'))
               | (Thrown e, it') \<Rightarrow> (Thrown e, cur, it')
               | (OutOfRange, it') \<Rightarrow> (OutOfRange, cur, it'))
            else (Returned (),
                  cur\<lparr>Token_text :=
                        Token_text cur @ [CHR ''$'', line ! Suc it, line ! Suc (Suc it)]\<rparr>,
                  Suc (Suc (Suc it))))
         else (Returned (),
               cur\<lparr>Token_text := Token_text cur @ [CHR ''$'', line ! Suc it]\<rparr>,
               Suc (Suc it)))
      else (Returned (), cur\<lparr>Token_text := Token_text cur @ [line ! it]\<rparr>, Suc it))"

text \<open>Every loop moves the cursor forward; the loop of \<^verbatim>\<open>parseLine\<close> ends for that reason.\<close>

lemma parseMarkerValue_scan_advances:
  "parseMarkerValue_scan line it marker = (r, it') \<Longrightarrow> it < it'"
  by (induction line it marker rule: parseMarkerValue_scan.induct)
     (subst (asm) parseMarkerValue_scan.simps, auto split: if_splits)

lemma parseMarkerValue_trim_advances:
  "parseMarkerValue_trim line it = (r, it') \<Longrightarrow> it < it'"
  by (induction line it rule: parseMarkerValue_trim.induct)
     (subst (asm) parseMarkerValue_trim.simps, auto split: if_splits)

lemma parseMarkerValue_advances:
  assumes "parseMarkerValue config line it = (r, it')"
  shows "it < it'"
proof -
  obtain r1 it1 where s: "parseMarkerValue_scan line it [] = (r1, it1)"
    by (cases "parseMarkerValue_scan line it []") auto
  then have 1: "it < it1" by (rule parseMarkerValue_scan_advances)
  obtain r2 it2 where t: "parseMarkerValue_trim line it1 = (r2, it2)"
    by (cases "parseMarkerValue_trim line it1") auto
  then have 2: "it1 < it2" by (rule parseMarkerValue_trim_advances)
  from assms s t have "it' = it1 \<or> it' = it2"
    by (auto simp: parseMarkerValue_def split: outcome.splits if_splits)
  with 1 2 show ?thesis by auto
qed

lemma parseLine_body_Returned:
  assumes "parseLine_body config cur line it = (Returned u, cur', it')"
  shows "it < length line" and "it < it'"
proof -
  show "it < length line"
    using assms by (auto simp: parseLine_body_def split: if_splits)
  show "it < it'"
    using assms unfolding parseLine_body_def
    by (auto simp: Let_def split: if_splits prod.splits outcome.splits
        dest!: parseMarkerValue_advances)
qed

text \<open>
  \<^verbatim>\<open>parseLine\<close>, lines 402 to 458: the loop \<^verbatim>\<open>while (it != line.end())\<close> around the body.
  It returns a copy of \<^verbatim>\<open>curr\<close>; the Token and the cursor behind the two references are the
  second and third component, also when the call throws.
\<close>

function parseLine ::
  "configure \<Rightarrow> Token \<Rightarrow> string \<Rightarrow> nat \<Rightarrow> Token outcome \<times> Token \<times> nat" where
  "parseLine config cur line it =
     (if it = length line then (Returned cur, cur, it)
      else
        (case parseLine_body config cur line it of
           (Returned _, cur', it') \<Rightarrow> parseLine config cur' line it'
         | (Thrown e, cur', it') \<Rightarrow> (Thrown e, cur', it')
         | (OutOfRange, cur', it') \<Rightarrow> (OutOfRange, cur', it')))"
  by pat_completeness auto
termination
  apply (relation "measure (\<lambda>(config, cur, line, it). Suc (length line) - it)")
   apply simp
  apply simp
  subgoal for config cur line it x y xa ya
    using parseLine_body_Returned [of config cur line it "()" xa ya] by simp
  done

declare parseLine.simps [simp del]

subsection \<open>The keyed-by-own-id invariant and the reachable containers\<close>

text \<open>
  A Dialog is well keyed when every Decision is stored under its own id, a Tree when
  every Dialog is stored under its own id and is well keyed itself. That a key has at
  most one entry is what \<^verbatim>\<open>std::map\<close> is, and what the map type of the model is.
\<close>

definition Dialog_inv :: "Dialog \<Rightarrow> bool" where
  "Dialog_inv d = (\<forall>k dc. Dialog_decisions d k = Some dc \<longrightarrow> Decision_id dc = k)"

definition Tree_inv :: "Tree \<Rightarrow> bool" where
  "Tree_inv t = (\<forall>k d. Tree_dialogs t k = Some d \<longrightarrow> Dialog_id d = k \<and> Dialog_inv d)"

text \<open>
  The Dialogs a program can build: the constructor, then either overload of
  \<^verbatim>\<open>insertDecision\<close> any number of times. A call that throws leaves the Dialog as it
  was, so the state after a caught exception is covered as well.
\<close>

inductive reachable_Dialog :: "Dialog \<Rightarrow> bool" where
  Dialog_constructed: "reachable_Dialog (Dialog_new i m l)"
| Dialog_insertDecision:
    "reachable_Dialog d \<Longrightarrow> reachable_Dialog (snd (insertDecision dc d))"
| Dialog_insertDecision_fields:
    "reachable_Dialog d \<Longrightarrow> reachable_Dialog (snd (insertDecision_fields i m l e s d))"

text \<open>
  The Trees a program can build: the constructor, then either overload of
  \<^verbatim>\<open>insertDialog\<close> (the Dialog handed over is one a program can build) and either
  overload of \<^verbatim>\<open>insertDecision\<close> on a Dialog of the Tree, reached through
  \<^verbatim>\<open>tree.dialog(k)\<close>.
\<close>

inductive reachable_Tree :: "Tree \<Rightarrow> bool" where
  Tree_constructed: "reachable_Tree (Tree_new r s)"
| Tree_insertDialog:
    "reachable_Tree t \<Longrightarrow> reachable_Dialog d \<Longrightarrow> reachable_Tree (snd (insertDialog d t))"
| Tree_insertDialog_fields:
    "reachable_Tree t \<Longrightarrow> reachable_Tree (snd (insertDialog_fields i m l t))"
| Tree_dialog_insertDecision:
    "reachable_Tree t \<Longrightarrow> reachable_Tree (snd (through_dialog k (insertDecision dc) t))"
| Tree_dialog_insertDecision_fields:
    "reachable_Tree t \<Longrightarrow>
     reachable_Tree (snd (through_dialog k (insertDecision_fields i m l e s) t))"

section \<open>The error log\<close>

text \<open>
  The insertions, the lookups and the scanner signal an error by \<^verbatim>\<open>console::log(1, msg)\<close>.
  Whatever the console, that call throws \<^verbatim>\<open>msg\<close>: the models of the callers write
  \<open>Thrown msg\<close> at those places.
\<close>

lemma log_error_throws: "fst (log 1 msg args c) = Thrown msg"
  by (simp add: log_def)

text \<open>
  Claim C6. A log call of severity 1 throws the exception carrying its first argument and
  leaves the console as it was, at every configured level. A call of severity 2 or 3
  returns normally; it writes through \<^verbatim>\<open>out\<close> when the configured level is at least its
  severity and writes nothing otherwise, so severity 3 is written exactly when the level
  is at least 3 (\<^verbatim>\<open>out\<close> always writes at least the end of line). A call of severity 0
  returns normally and writes nothing.
\<close>

theorem log_severities:
  "log 1 arg args c = (Thrown arg, c)
   \<and> log 2 arg args c = (Returned (), if 2 \<le> console_level c then out arg args c else c)
   \<and> log 3 arg args c = (Returned (), if 3 \<le> console_level c then out arg args c else c)
   \<and> log 0 arg args c = (Returned (), c)
   \<and> cout (out arg args c) \<noteq> cout c
   \<and> (cout (snd (log 3 arg args c)) \<noteq> cout c) = (3 \<le> console_level c)"
  by (simp add: log_def out_def)

section \<open>Insertion and lookup\<close>

text \<open>
  Claim C2. Inserting a Dialog whose id is already a key of the Tree throws the
  duplicate-id error and returns the Tree unchanged, for both overloads of
  \<^verbatim>\<open>insertDialog\<close>; the same holds for both overloads of \<^verbatim>\<open>insertDecision\<close> and a
  Dialog. After two Dialogs with one id are inserted into a Tree that did not have the
  id, the first insertion has returned, the second throws and changes nothing, and
  looking the id up returns the first Dialog; the same for two Decisions and a Dialog.
\<close>

theorem duplicate_id_insertion_rejected:
  "(Tree_dialogs t (Dialog_id d) = Some d0 \<longrightarrow>
      insertDialog d t = (Thrown (''duplicate dialog id: '' @ Dialog_id d), t))
   \<and> (Tree_dialogs t i = Some d0 \<longrightarrow>
      insertDialog_fields i m l t = (Thrown (''duplicate dialog id: '' @ i), t))
   \<and> (Dialog_decisions dl (Decision_id dc) = Some dc0 \<longrightarrow>
      insertDecision dc dl = (Thrown (''duplicate decision id: '' @ Decision_id dc), dl))
   \<and> (Dialog_decisions dl j = Some dc0 \<longrightarrow>
      insertDecision_fields j m' l' e s dl = (Thrown (''duplicate decision id: '' @ j), dl))
   \<and> (Tree_dialogs t (Dialog_id d1) = None \<and> Dialog_id d2 = Dialog_id d1 \<longrightarrow>
      (let t1 = snd (insertDialog d1 t) in
         fst (insertDialog d1 t) = Returned ()
         \<and> insertDialog d2 t1 = (Thrown (''duplicate dialog id: '' @ Dialog_id d2), t1)
         \<and> dialog (Dialog_id d1) t1 = (Returned d1, t1)))
   \<and> (Dialog_decisions dl (Decision_id c1) = None \<and> Decision_id c2 = Decision_id c1 \<longrightarrow>
      (let dl1 = snd (insertDecision c1 dl) in
         fst (insertDecision c1 dl) = Returned ()
         \<and> insertDecision c2 dl1 = (Thrown (''duplicate decision id: '' @ Decision_id c2), dl1)
         \<and> decision (Decision_id c1) dl1 = (Returned c1, dl1)))"
  by (simp add: insertDialog_def insertDialog_fields_def insertDecision_def
      insertDecision_fields_def dialog_def decision_def)

theorem duplicate_id_insertion_rejected_witness:
  "Tree_dialogs (Tree_new ''D1'' 0) (Dialog_id (Dialog_new ''D1'' ''first'' [])) = None
   \<and> Dialog_id (Dialog_new ''D1'' ''second'' []) = Dialog_id (Dialog_new ''D1'' ''first'' [])
   \<and> insertDialog (Dialog_new ''D1'' ''second'' [])
         (snd (insertDialog (Dialog_new ''D1'' ''first'' []) (Tree_new ''D1'' 0))) =
       (Thrown ''duplicate dialog id: D1'',
        snd (insertDialog (Dialog_new ''D1'' ''first'' []) (Tree_new ''D1'' 0)))
   \<and> dialog ''D1'' (snd (insertDialog (Dialog_new ''D1'' ''first'' []) (Tree_new ''D1'' 0))) =
       (Returned (Dialog_new ''D1'' ''first'' []),
        snd (insertDialog (Dialog_new ''D1'' ''first'' []) (Tree_new ''D1'' 0)))
   \<and> Dialog_decisions (Dialog_new ''D1'' ''first'' [])
         (Decision_id (Decision_new ''a'' ''left'' [] True 0)) = None
   \<and> insertDecision (Decision_new ''a'' ''right'' [] True 0)
         (snd (insertDecision (Decision_new ''a'' ''left'' [] True 0)
                (Dialog_new ''D1'' ''first'' []))) =
       (Thrown ''duplicate decision id: a'',
        snd (insertDecision (Decision_new ''a'' ''left'' [] True 0)
              (Dialog_new ''D1'' ''first'' [])))
   \<and> decision ''a'' (snd (insertDecision (Decision_new ''a'' ''left'' [] True 0)
                             (Dialog_new ''D1'' ''first'' []))) =
       (Returned (Decision_new ''a'' ''left'' [] True 0),
        snd (insertDecision (Decision_new ''a'' ''left'' [] True 0)
              (Dialog_new ''D1'' ''first'' [])))"
  using duplicate_id_insertion_rejected
    [of "Tree_new ''D1'' 0" "Dialog_new ''D1'' ''first'' []" _ _ _ _ "Dialog_new ''D1'' ''first'' []"
        "Decision_new ''a'' ''left'' [] True 0" _ _ _ _ _ _
        "Dialog_new ''D1'' ''first'' []" "Dialog_new ''D1'' ''second'' []"
        "Decision_new ''a'' ''left'' [] True 0" "Decision_new ''a'' ''right'' [] True 0"]
  by (simp add: Tree_new_def Dialog_new_def Decision_new_def Let_def)

text \<open>
  Claim C7. Looking up an id that is not a key throws the not-found error and returns the
  container unchanged; looking up a key returns the entry stored under it, and the
  container is unchanged. This holds for \<^verbatim>\<open>Tree::dialog\<close> and for \<^verbatim>\<open>Dialog::decision\<close>.
  The C++ result is a reference to the stored entry: a member called through it works on
  that entry and its effect is stored under the same key, which is the last conjunct.
\<close>

theorem lookup_miss_throws_hit_returns_entry:
  "(Tree_dialogs t i = None \<longrightarrow>
      dialog i t = (Thrown (''cannot find dialog with id: '' @ i), t))
   \<and> (Tree_dialogs t i = Some d \<longrightarrow> dialog i t = (Returned d, t))
   \<and> (Dialog_decisions dl j = None \<longrightarrow>
      decision j dl = (Thrown (''cannot find decision with id: '' @ j), dl))
   \<and> (Dialog_decisions dl j = Some dc \<longrightarrow> decision j dl = (Returned dc, dl))
   \<and> (Tree_dialogs t i = Some d \<longrightarrow>
      through_dialog i f t = (fst (f d), t\<lparr>Tree_dialogs := (Tree_dialogs t)(i \<mapsto> snd (f d))\<rparr>))"
  by (simp add: dialog_def decision_def through_dialog_def split: prod.splits)

theorem lookup_miss_throws_hit_returns_entry_witness:
  "Tree_dialogs (Tree_new ''D1'' 0) ''missing'' = None
   \<and> dialog ''missing'' (Tree_new ''D1'' 0) =
       (Thrown ''cannot find dialog with id: missing'', Tree_new ''D1'' 0)
   \<and> Tree_dialogs (snd (insertDialog (Dialog_new ''D1'' ''first'' []) (Tree_new ''D1'' 0))) ''D1'' =
       Some (Dialog_new ''D1'' ''first'' [])
   \<and> dialog ''D1'' (snd (insertDialog (Dialog_new ''D1'' ''first'' []) (Tree_new ''D1'' 0))) =
       (Returned (Dialog_new ''D1'' ''first'' []),
        snd (insertDialog (Dialog_new ''D1'' ''first'' []) (Tree_new ''D1'' 0)))
   \<and> Dialog_decisions (Dialog_new ''D1'' ''first'' []) ''a'' = None
   \<and> decision ''a'' (Dialog_new ''D1'' ''first'' []) =
       (Thrown ''cannot find decision with id: a'', Dialog_new ''D1'' ''first'' [])
   \<and> decision ''a'' (snd (insertDecision (Decision_new ''a'' ''left'' [] True 0)
                             (Dialog_new ''D1'' ''first'' []))) =
       (Returned (Decision_new ''a'' ''left'' [] True 0),
        snd (insertDecision (Decision_new ''a'' ''left'' [] True 0)
              (Dialog_new ''D1'' ''first'' [])))"
  using lookup_miss_throws_hit_returns_entry
    [of "Tree_new ''D1'' 0" "''missing''" "Dialog_new ''D1'' ''first'' []"
        "Dialog_new ''D1'' ''first'' []" "''a''" "Decision_new ''a'' ''left'' [] True 0"
        "insertDecision (Decision_new ''a'' ''left'' [] True 0)"]
    lookup_miss_throws_hit_returns_entry
    [of "snd (insertDialog (Dialog_new ''D1'' ''first'' []) (Tree_new ''D1'' 0))" "''D1''"
        "Dialog_new ''D1'' ''first'' []"
        "snd (insertDecision (Decision_new ''a'' ''left'' [] True 0)
               (Dialog_new ''D1'' ''first'' []))" "''a''"
        "Decision_new ''a'' ''left'' [] True 0"
        "insertDecision (Decision_new ''a'' ''left'' [] True 0)"]
  by (simp add: Tree_new_def Dialog_new_def Decision_new_def insertDialog_def insertDecision_def)

section \<open>Every stored entity is keyed by its own id\<close>

lemma Dialog_new_inv: "Dialog_inv (Dialog_new i m l)"
  by (simp add: Dialog_inv_def Dialog_new_def)

lemma insertDecision_inv: "Dialog_inv d \<Longrightarrow> Dialog_inv (snd (insertDecision dc d))"
  by (auto simp: Dialog_inv_def insertDecision_def split: option.splits)

lemma insertDecision_fields_inv:
  "Dialog_inv d \<Longrightarrow> Dialog_inv (snd (insertDecision_fields i m l e s d))"
  by (auto simp: Dialog_inv_def insertDecision_fields_def Decision_new_def split: option.splits)

lemma insertDecision_id: "Dialog_id (snd (insertDecision dc d)) = Dialog_id d"
  by (simp add: insertDecision_def split: option.splits)

lemma insertDecision_fields_id:
  "Dialog_id (snd (insertDecision_fields i m l e s d)) = Dialog_id d"
  by (simp add: insertDecision_fields_def split: option.splits)

lemma reachable_Dialog_inv: "reachable_Dialog d \<Longrightarrow> Dialog_inv d"
  by (induction rule: reachable_Dialog.induct)
     (simp_all add: Dialog_new_inv insertDecision_inv insertDecision_fields_inv)

lemma Tree_new_inv: "Tree_inv (Tree_new r s)"
  by (simp add: Tree_inv_def Tree_new_def)

lemma insertDialog_inv:
  "Tree_inv t \<Longrightarrow> Dialog_inv d \<Longrightarrow> Tree_inv (snd (insertDialog d t))"
  by (auto simp: Tree_inv_def insertDialog_def split: option.splits)

lemma insertDialog_fields_inv: "Tree_inv t \<Longrightarrow> Tree_inv (snd (insertDialog_fields i m l t))"
  by (auto simp: Tree_inv_def insertDialog_fields_def Dialog_new_def Dialog_inv_def
      split: option.splits)

text \<open>
  A member called through \<^verbatim>\<open>tree.dialog(k)\<close> keeps the Tree well keyed when it keeps the
  Dialog well keyed and does not change the Dialog's id (\<^verbatim>\<open>id_\<close> is \<^verbatim>\<open>const\<close>).
\<close>

lemma through_dialog_inv:
  assumes "Tree_inv t"
    and "\<And>d. Dialog_inv d \<Longrightarrow> Dialog_inv (snd (f d))"
    and "\<And>d. Dialog_id (snd (f d)) = Dialog_id d"
  shows "Tree_inv (snd (through_dialog k f t))"
proof (cases "Tree_dialogs t k")
  case None
  then show ?thesis using assms(1) by (simp add: through_dialog_def dialog_def)
next
  case (Some d)
  then have "Dialog_id d = k" and "Dialog_inv d"
    using assms(1) by (auto simp: Tree_inv_def)
  then have "Dialog_id (snd (f d)) = k" and "Dialog_inv (snd (f d))"
    using assms(2,3) by auto
  then show ?thesis
    using Some assms(1)
    by (auto simp: through_dialog_def dialog_def Tree_inv_def split: prod.splits)
qed

lemma reachable_Tree_inv: "reachable_Tree t \<Longrightarrow> Tree_inv t"
proof (induction rule: reachable_Tree.induct)
  case (Tree_constructed r s)
  show ?case by (rule Tree_new_inv)
next
  case (Tree_insertDialog t d)
  then show ?case by (simp add: insertDialog_inv reachable_Dialog_inv)
next
  case (Tree_insertDialog_fields t i m l)
  then show ?case by (simp add: insertDialog_fields_inv)
next
  case (Tree_dialog_insertDecision t k dc)
  then show ?case by (simp add: through_dialog_inv insertDecision_inv insertDecision_id)
next
  case (Tree_dialog_insertDecision_fields t k i m l e s)
  then show ?case
    by (simp add: through_dialog_inv insertDecision_fields_inv insertDecision_fields_id)
qed

text \<open>An insertion never replaces an entry: what a key held before, it holds after.\<close>

lemma insertDialog_keeps_entries:
  "Tree_dialogs t k = Some d0 \<Longrightarrow> Tree_dialogs (snd (insertDialog d t)) k = Some d0"
  by (auto simp: insertDialog_def split: option.splits)

lemma insertDialog_fields_keeps_entries:
  "Tree_dialogs t k = Some d0 \<Longrightarrow> Tree_dialogs (snd (insertDialog_fields i m l t)) k = Some d0"
  by (auto simp: insertDialog_fields_def split: option.splits)

lemma insertDecision_keeps_entries:
  "Dialog_decisions d k = Some c0 \<Longrightarrow> Dialog_decisions (snd (insertDecision dc d)) k = Some c0"
  by (auto simp: insertDecision_def split: option.splits)

lemma insertDecision_fields_keeps_entries:
  "Dialog_decisions d k = Some c0 \<Longrightarrow>
   Dialog_decisions (snd (insertDecision_fields i m l e s d)) k = Some c0"
  by (auto simp: insertDecision_fields_def split: option.splits)

text \<open>
  Claim C9. In every Tree built by the constructor and any sequence of
  \<^verbatim>\<open>insertDialog\<close> and \<^verbatim>\<open>insertDecision\<close> calls, every key of the dialogs maps to a
  Dialog with that id, and in every such Dialog every key of the decisions maps to a
  Decision with that id. Each of the operations preserves the invariant, and none
  replaces the entry of a key that is present, so a key keeps its one entry.
\<close>

theorem keyed_by_own_id:
  "(reachable_Tree t \<longrightarrow> Tree_inv t)
   \<and> (Tree_inv t \<and> Dialog_inv d \<longrightarrow> Tree_inv (snd (insertDialog d t)))
   \<and> (Tree_inv t \<longrightarrow> Tree_inv (snd (insertDialog_fields i m l t)))
   \<and> (Tree_inv t \<longrightarrow> Tree_inv (snd (through_dialog k (insertDecision dc) t)))
   \<and> (Tree_inv t \<longrightarrow> Tree_inv (snd (through_dialog k (insertDecision_fields i m l e s) t)))
   \<and> (Dialog_inv d \<longrightarrow> Dialog_inv (snd (insertDecision dc d)))
   \<and> (Dialog_inv d \<longrightarrow> Dialog_inv (snd (insertDecision_fields i m l e s d)))
   \<and> (Tree_dialogs t k = Some d0 \<longrightarrow>
        Tree_dialogs (snd (insertDialog d t)) k = Some d0
        \<and> Tree_dialogs (snd (insertDialog_fields i m l t)) k = Some d0)
   \<and> (Dialog_decisions d k = Some c0 \<longrightarrow>
        Dialog_decisions (snd (insertDecision dc d)) k = Some c0
        \<and> Dialog_decisions (snd (insertDecision_fields i m l e s d)) k = Some c0)"
  by (simp add: reachable_Tree_inv insertDialog_inv insertDialog_fields_inv through_dialog_inv
      insertDecision_inv insertDecision_fields_inv insertDecision_id insertDecision_fields_id
      insertDialog_keeps_entries insertDialog_fields_keeps_entries
      insertDecision_keeps_entries insertDecision_fields_keeps_entries)

theorem keyed_by_own_id_witness:
  "reachable_Tree
     (snd (through_dialog ''D1'' (insertDecision (Decision_new ''go'' ''Go on'' ''D2'' True 0))
        (snd (insertDialog (Dialog_new ''D1'' ''Hello'' []) (Tree_new ''D1'' 0)))))
   \<and> Tree_inv
     (snd (through_dialog ''D1'' (insertDecision (Decision_new ''go'' ''Go on'' ''D2'' True 0))
        (snd (insertDialog (Dialog_new ''D1'' ''Hello'' []) (Tree_new ''D1'' 0)))))
   \<and> map_option Dialog_id
       (Tree_dialogs
         (snd (through_dialog ''D1'' (insertDecision (Decision_new ''go'' ''Go on'' ''D2'' True 0))
            (snd (insertDialog (Dialog_new ''D1'' ''Hello'' []) (Tree_new ''D1'' 0)))))
         ''D1'') = Some ''D1''
   \<and> map_option (\<lambda>d. map_option Decision_id (Dialog_decisions d ''go''))
       (Tree_dialogs
         (snd (through_dialog ''D1'' (insertDecision (Decision_new ''go'' ''Go on'' ''D2'' True 0))
            (snd (insertDialog (Dialog_new ''D1'' ''Hello'' []) (Tree_new ''D1'' 0)))))
         ''D1'') = Some (Some ''go'')"
proof -
  let ?t = "snd (through_dialog ''D1''
                  (insertDecision (Decision_new ''go'' ''Go on'' ''D2'' True 0))
                  (snd (insertDialog (Dialog_new ''D1'' ''Hello'' []) (Tree_new ''D1'' 0))))"
  have r: "reachable_Tree ?t"
    by (intro reachable_Tree.intros reachable_Dialog.intros)
  have i: "Tree_inv ?t"
    using keyed_by_own_id [of ?t] r by simp
  have e: "map_option Dialog_id (Tree_dialogs ?t ''D1'') = Some ''D1''"
    by (simp add: through_dialog_def dialog_def insertDialog_def insertDecision_def
        Tree_new_def Dialog_new_def Decision_new_def)
  have g: "map_option (\<lambda>d. map_option Decision_id (Dialog_decisions d ''go''))
             (Tree_dialogs ?t ''D1'') = Some (Some ''go'')"
    by (simp add: through_dialog_def dialog_def insertDialog_def insertDecision_def
        Tree_new_def Dialog_new_def Decision_new_def)
  from r i e g show ?thesis by simp
qed

section \<open>The marker scanner\<close>

text \<open>When \<^verbatim>\<open>parseLine\<close> returns, the cursor is \<^verbatim>\<open>line.end()\<close> and the result is \<^verbatim>\<open>curr\<close>.\<close>

lemma parseLine_returns_at_line_end:
  "parseLine config cur line it = (Returned tok, cur', it') \<Longrightarrow> it' = length line \<and> tok = cur'"
proof (induction config cur line it rule: parseLine.induct)
  case (1 config cur line it)
  show ?case
  proof (cases "it = length line")
    case True
    with "1.prems" show ?thesis by (subst (asm) parseLine.simps) auto
  next
    case False
    obtain r c i where b: "parseLine_body config cur line it = (r, c, i)"
      by (cases "parseLine_body config cur line it") auto
    show ?thesis
    proof (cases r)
      case (Returned u)
      with False b "1.prems" have "parseLine config c line i = (Returned tok, cur', it')"
        by (simp add: parseLine.simps)
      with "1.IH" [of r "(c, i)" u c i] False b Returned show ?thesis by simp
    next
      case (Thrown e)
      with False b "1.prems" show ?thesis by (simp add: parseLine.simps)
    next
      case OutOfRange
      with False b "1.prems" show ?thesis by (simp add: parseLine.simps)
    qed
  qed
qed

text \<open>
  A \<^verbatim>\<open>$\<close> followed inside the line by a character other than \<^verbatim>\<open>[\<close>, \<^verbatim>\<open>T\<close>, \<^verbatim>\<open>t\<close>,
  \<^verbatim>\<open>D\<close>, \<^verbatim>\<open>d\<close> is text together with that character; a \<^verbatim>\<open>$\<close>, one of the four
  letters and a character other than \<^verbatim>\<open>[\<close>, all inside the line, are text as well. The
  other fields of the Token stay as they are, and the scan goes on behind the characters.
\<close>

lemma dollar_literal_step:
  assumes "Suc it < length line" and "line ! it = CHR ''$''"
    and "line ! Suc it \<noteq> CHR ''[''" and "line ! Suc it \<noteq> CHR ''T''"
    and "line ! Suc it \<noteq> CHR ''t''" and "line ! Suc it \<noteq> CHR ''D''"
    and "line ! Suc it \<noteq> CHR ''d''"
  shows "parseLine_body config cur line it =
           (Returned (), cur\<lparr>Token_text := Token_text cur @ [CHR ''$'', line ! Suc it]\<rparr>,
            Suc (Suc it))"
  using assms by (simp add: parseLine_body_def)

lemma dollar_letter_literal_step:
  assumes "Suc (Suc it) < length line" and "line ! it = CHR ''$''"
    and "line ! Suc it = CHR ''T'' \<or> line ! Suc it = CHR ''t'' \<or>
         line ! Suc it = CHR ''D'' \<or> line ! Suc it = CHR ''d''"
    and "line ! Suc (Suc it) \<noteq> CHR ''[''"
  shows "parseLine_body config cur line it =
           (Returned (),
            cur\<lparr>Token_text := Token_text cur @ [CHR ''$'', line ! Suc it, line ! Suc (Suc it)]\<rparr>,
            Suc (Suc (Suc it)))"
  using assms by (auto simp: parseLine_body_def)

text \<open>A \<^verbatim>\<open>$\<close> that is the last character of the line: line 411 reads \<^verbatim>\<open>*it\<close> at \<^verbatim>\<open>line.end()\<close>.\<close>

lemma dollar_at_line_end:
  assumes "Suc it = length line" and "line ! it = CHR ''$''"
  shows "parseLine config cur line it = (OutOfRange, cur, Suc it)"
  using assms by (simp add: parseLine.simps parseLine_body_def)

text \<open>
  A complete id marker read into a Token that has an id throws; the id and the text stay,
  the flag is flipped back. The same for a complete link marker and a Token with a link.
\<close>

lemma second_id_marker_throws:
  assumes "Suc it < length line" and "line ! it = CHR ''$''" and "line ! Suc it = CHR ''[''"
    and "parseMarkerValue config line (Suc it) = (Returned ident, it')"
    and "hasId cur"
  shows "parseLine config cur line it =
           (Thrown (''found another id within token: '' @ ident), cur\<lparr>hasId := False\<rparr>, it')"
  using assms by (simp add: parseLine.simps parseLine_body_def Let_def)

lemma second_link_marker_throws:
  assumes "Suc (Suc it) < length line" and "line ! it = CHR ''$''"
    and "line ! Suc it = CHR ''T'' \<or> line ! Suc it = CHR ''t'' \<or>
         line ! Suc it = CHR ''D'' \<or> line ! Suc it = CHR ''d''"
    and "line ! Suc (Suc it) = CHR ''[''"
    and "parseMarkerValue config line (Suc (Suc it)) = (Returned lnk, it')"
    and "hasLink cur"
  shows "parseLine config cur line it =
           (Thrown (''found another link within token: '' @ lnk), cur\<lparr>hasLink := False\<rparr>, it')"
  using assms by (auto simp: parseLine.simps parseLine_body_def Let_def)

text \<open>
  Claim C1, at its own inputs. With trimming enabled (the default) the second loop of
  \<^verbatim>\<open>parseMarkerValue\<close> stops on the first character that is not a space, and the
  \<^verbatim>\<open>it++\<close> of line 455 then steps over that character: scanning \<^verbatim>\<open>$[foo]bar\<close> into a
  fresh Token gives the id \<^verbatim>\<open>foo\<close> and the text \<^verbatim>\<open>ar\<close>, scanning \<^verbatim>\<open>$[a]   text\<close> gives
  the text \<^verbatim>\<open>ext\<close>. With trimming disabled the texts are \<^verbatim>\<open>bar\<close> and the three spaces
  followed by \<^verbatim>\<open>text\<close>.
\<close>

theorem id_marker_then_text:
  "parseLine configure_default Token_default ''$[foo]bar'' 0 =
     (Returned (Token_default\<lparr>Token_text := ''ar'', Token_id := ''foo'', hasId := True\<rparr>),
      Token_default\<lparr>Token_text := ''ar'', Token_id := ''foo'', hasId := True\<rparr>, 9)
   \<and> parseLine configure_default Token_default ''$[a]   text'' 0 =
     (Returned (Token_default\<lparr>Token_text := ''ext'', Token_id := ''a'', hasId := True\<rparr>),
      Token_default\<lparr>Token_text := ''ext'', Token_id := ''a'', hasId := True\<rparr>, 11)
   \<and> parseLine (configure_default\<lparr>trim_whitespaces_behind_markers := False\<rparr>)
        Token_default ''$[foo]bar'' 0 =
     (Returned (Token_default\<lparr>Token_text := ''bar'', Token_id := ''foo'', hasId := True\<rparr>),
      Token_default\<lparr>Token_text := ''bar'', Token_id := ''foo'', hasId := True\<rparr>, 9)
   \<and> parseLine (configure_default\<lparr>trim_whitespaces_behind_markers := False\<rparr>)
        Token_default ''$[a]   text'' 0 =
     (Returned (Token_default\<lparr>Token_text := ''   text'', Token_id := ''a'', hasId := True\<rparr>),
      Token_default\<lparr>Token_text := ''   text'', Token_id := ''a'', hasId := True\<rparr>, 11)"
  by (intro conjI; code_simp)

text \<open>
  Claim C3, at its own input \<^verbatim>\<open>$[abc\<close>. The first loop of \<^verbatim>\<open>parseMarkerValue\<close> takes
  \<^verbatim>\<open>abc\<close> as the marker and stops with the cursor at \<^verbatim>\<open>line.end()\<close>; no exception is
  thrown. The scan does not end there. With trimming enabled the second loop increments
  the cursor past \<^verbatim>\<open>line.end()\<close> and reads; with trimming disabled \<^verbatim>\<open>parseLine\<close> stores
  the id, increments the cursor past \<^verbatim>\<open>line.end()\<close> at line 455 and reads at line 407.
\<close>

theorem unterminated_marker:
  "parseMarkerValue_scan ''$[abc'' 1 [] = (Returned ''abc'', 5)
   \<and> parseLine (config\<lparr>trim_whitespaces_behind_markers := True\<rparr>) Token_default ''$[abc'' 0 =
       (OutOfRange, Token_default, 6)
   \<and> parseLine (config\<lparr>trim_whitespaces_behind_markers := False\<rparr>) Token_default ''$[abc'' 0 =
       (OutOfRange, Token_default\<lparr>hasId := True, Token_id := ''abc''\<rparr>, 6)"
  by (simp add: parseLine.simps parseLine_body_def parseMarkerValue_def
      parseMarkerValue_scan.simps parseMarkerValue_trim.simps Let_def Token_default_def)

text \<open>
  Claim C4, at its own inputs, with trimming enabled (the default). Scanning
  \<^verbatim>\<open>$T[x] go\<close> into a fresh Token gives the link \<^verbatim>\<open>x\<close> of the tree kind and the text
  \<^verbatim>\<open>o\<close>: the \<^verbatim>\<open>g\<close> is stepped over. Scanning \<^verbatim>\<open>$d[y]\<close> stores the link \<^verbatim>\<open>y\<close> of the
  dialog kind, and then the cursor, left at \<^verbatim>\<open>line.end()\<close> by the second loop of
  \<^verbatim>\<open>parseMarkerValue\<close>, is incremented at line 455 and read at line 407. With trimming
  disabled \<^verbatim>\<open>$d[y]\<close> gives the link, the dialog kind, no text and no id.
\<close>

theorem link_marker_then_text:
  "parseLine configure_default Token_default ''$T[x] go'' 0 =
     (Returned (Token_default\<lparr>Token_text := ''o'', Token_link := ''x'', isTreeLink := True,
                              hasLink := True\<rparr>),
      Token_default\<lparr>Token_text := ''o'', Token_link := ''x'', isTreeLink := True,
                    hasLink := True\<rparr>, 8)
   \<and> parseLine configure_default Token_default ''$d[y]'' 0 =
     (OutOfRange, Token_default\<lparr>Token_link := ''y'', hasLink := True\<rparr>, 6)
   \<and> parseLine (configure_default\<lparr>trim_whitespaces_behind_markers := False\<rparr>)
        Token_default ''$d[y]'' 0 =
     (Returned (Token_default\<lparr>Token_link := ''y'', hasLink := True\<rparr>),
      Token_default\<lparr>Token_link := ''y'', hasLink := True\<rparr>, 5)"
  by (intro conjI; code_simp)

text \<open>
  Claim C5, at its own input \<^verbatim>\<open>$[a]$[b]\<close>. With trimming enabled (the default) the
  \<^verbatim>\<open>$\<close> of the second marker is the character stepped over after the first marker, so
  the second marker is not seen: the scan returns the id \<^verbatim>\<open>a\<close> and the text \<^verbatim>\<open>[b]\<close>, and
  nothing is thrown. With trimming disabled the second marker throws
  \<^verbatim>\<open>found another id within token: b\<close>; the Token keeps the id \<^verbatim>\<open>a\<close> and its text.
\<close>

theorem second_id_marker:
  "parseLine configure_default Token_default ''$[a]$[b]'' 0 =
     (Returned (Token_default\<lparr>Token_text := ''[b]'', Token_id := ''a'', hasId := True\<rparr>),
      Token_default\<lparr>Token_text := ''[b]'', Token_id := ''a'', hasId := True\<rparr>, 8)
   \<and> parseLine (configure_default\<lparr>trim_whitespaces_behind_markers := False\<rparr>)
        Token_default ''$[a]$[b]'' 0 =
     (Thrown ''found another id within token: b'', Token_default\<lparr>Token_id := ''a''\<rparr>, 7)"
  by (intro conjI; code_simp)

text \<open>
  Claim C8. Scanning \<^verbatim>\<open>$q\<close> appends \<^verbatim>\<open>$q\<close> to the text, leaves the other fields of the
  Token as they are and returns at the end of the line. A \<^verbatim>\<open>$\<close> that is followed by
  \<^verbatim>\<open>T\<close> and the end of the line, or by the end of the line, is followed by no \<^verbatim>\<open>[\<close>
  either, and there the scan reads \<^verbatim>\<open>*it\<close> at \<^verbatim>\<open>line.end()\<close> (lines 428 and 411): nothing
  is appended and the scan does not return.
\<close>

theorem dollar_literal:
  "parseLine config cur ''$q'' 0 =
       (Returned (cur\<lparr>Token_text := Token_text cur @ ''$q''\<rparr>),
        cur\<lparr>Token_text := Token_text cur @ ''$q''\<rparr>, 2)
   \<and> parseLine config cur ''$T'' 0 = (OutOfRange, cur, 2)
   \<and> parseLine config cur ''x$'' 0 =
       (OutOfRange, cur\<lparr>Token_text := Token_text cur @ ''x''\<rparr>, 2)"
  by (simp add: parseLine.simps parseLine_body_def)

text \<open>
  Claim C10. The scan reads outside the line on each of the four kinds of line the claim
  names: a line ending in \<^verbatim>\<open>$\<close>; a line ending in \<^verbatim>\<open>$d\<close>; with trimming enabled, a line
  ending in the \<^verbatim>\<open>]\<close> of a marker; a line ending in an unterminated marker. In the last
  two the cursor has been incremented past \<^verbatim>\<open>line.end()\<close> before the read.
\<close>

theorem cursor_past_line_end:
  "parseLine config cur ''$'' 0 = (OutOfRange, cur, 1)
   \<and> parseLine config cur ''$d'' 0 = (OutOfRange, cur, 2)
   \<and> parseLine configure_default Token_default ''$[a]'' 0 =
       (OutOfRange, Token_default\<lparr>hasId := True, Token_id := ''a''\<rparr>, 5)
   \<and> parseLine (configure_default\<lparr>trim_whitespaces_behind_markers := False\<rparr>)
        Token_default ''$[a'' 0 =
       (OutOfRange, Token_default\<lparr>hasId := True, Token_id := ''a''\<rparr>, 4)"
  by (simp add: parseLine.simps parseLine_body_def parseMarkerValue_def
      parseMarkerValue_scan.simps parseMarkerValue_trim.simps Let_def
      Token_default_def configure_default_def)

end
